theory Spec2Isabelle
  imports Main "HOL-Library.Sublist"
begin

section \<open>JavaScript values used by lib/saganbot.js\<close>

text \<open>
  Strings are lists of 8-bit characters, read as the code points U+0000 to U+00FF.
  A property that may be absent from an object is a \<open>jsval\<close>: \<open>Undefined\<close>
  when it is absent, \<open>Str s\<close> when it holds the string \<open>s\<close>. Strict equality
  \<open>===\<close> on these values is equality of the datatype.
\<close>

datatype jsval = Undefined | Str string

text \<open>The only exception the file can raise: a property read on \<open>undefined\<close> or \<open>null\<close>.\<close>

datatype error = TypeError string

text \<open>\<open>Boolean(v)\<close>: \<open>undefined\<close> and the empty string are falsy.\<close>

fun Boolean :: "jsval \<Rightarrow> bool" where
  "Boolean Undefined = False"
| "Boolean (Str s) = (s \<noteq> [])"

text \<open>
  \<open>String.prototype.toLowerCase\<close> on the code points below 256: the letters A to Z
  and the Latin-1 capitals U+00C0 to U+00DE (U+00D7, the multiplication sign, apart)
  move up by 32; every other code point is kept.
\<close>

definition toLowerChar :: "char \<Rightarrow> char" where
  "toLowerChar c =
     (let n = (of_char c :: nat)
      in if (65 \<le> n \<and> n \<le> 90) \<or> (192 \<le> n \<and> n \<le> 222 \<and> n \<noteq> 215)
         then char_of (n + 32) else c)"

definition toLowerCase :: "string \<Rightarrow> string" where
  "toLowerCase s = map toLowerChar s"

text \<open>
  \<open>s.indexOf(pat)\<close>: the first position at which \<open>pat\<close> occurs in \<open>s\<close>, or \<open>-1\<close>.
  The empty pattern occurs at position 0 of every string.
\<close>

fun indexOf_from :: "nat \<Rightarrow> string \<Rightarrow> string \<Rightarrow> int" where
  "indexOf_from i [] pat = (if pat = [] then int i else - 1)"
| "indexOf_from i (c # cs) pat =
     (if prefix pat (c # cs) then int i else indexOf_from (Suc i) cs pat)"

definition indexOf :: "string \<Rightarrow> string \<Rightarrow> int" where
  "indexOf s pat = indexOf_from 0 s pat"

text \<open>\<open>s.slice(4, s.length)\<close>: the string without its first four characters.\<close>

definition slice4 :: "string \<Rightarrow> string" where
  "slice4 s = drop 4 s"

subsection \<open>Unary plus on a string\<close>

text \<open>
  \<open>+s\<close> converts the string to a Number (ToNumber of the language standard). The
  string is a numeric literal or it is not: when it is not, the result is \<open>NaN\<close>.
  Floating point is not modelled, so a numeric result is kept as \<open>NumberOf lit\<close>,
  the Number that the literal \<open>lit\<close> (the text without surrounding white space)
  denotes; the empty literal denotes 0.
\<close>

datatype jsnumber = NaN | NumberOf string

definition isStrWhiteSpaceChar :: "char \<Rightarrow> bool" where
  "isStrWhiteSpaceChar c = ((of_char c :: nat) \<in> {9, 10, 11, 12, 13, 32, 160})"

definition trimWhiteSpace :: "string \<Rightarrow> string" where
  "trimWhiteSpace s =
     rev (dropWhile isStrWhiteSpaceChar (rev (dropWhile isStrWhiteSpaceChar s)))"

definition isDecimalDigit :: "char \<Rightarrow> bool" where
  "isDecimalDigit c = (48 \<le> (of_char c :: nat) \<and> (of_char c :: nat) \<le> 57)"

definition isBinaryDigit :: "char \<Rightarrow> bool" where
  "isBinaryDigit c = (c = CHR ''0'' \<or> c = CHR ''1'')"

definition isOctalDigit :: "char \<Rightarrow> bool" where
  "isOctalDigit c = (48 \<le> (of_char c :: nat) \<and> (of_char c :: nat) \<le> 55)"

definition isHexDigit :: "char \<Rightarrow> bool" where
  "isHexDigit c =
     (let n = (of_char c :: nat)
      in (48 \<le> n \<and> n \<le> 57) \<or> (65 \<le> n \<and> n \<le> 70) \<or> (97 \<le> n \<and> n \<le> 102))"

text \<open>One or more digits of the given kind, and nothing else.\<close>

definition isDigits :: "(char \<Rightarrow> bool) \<Rightarrow> string \<Rightarrow> bool" where
  "isDigits digit s = (s \<noteq> [] \<and> list_all digit s)"

text \<open>\<open>SignedInteger\<close>: decimal digits with an optional sign.\<close>

fun isSignedInteger :: "string \<Rightarrow> bool" where
  "isSignedInteger [] = False"
| "isSignedInteger (c # cs) =
     (if c = CHR ''+'' \<or> c = CHR ''-'' then isDigits isDecimalDigit cs
      else isDigits isDecimalDigit (c # cs))"

text \<open>An optional \<open>ExponentPart\<close>: nothing, or \<open>e\<close> or \<open>E\<close> and a signed integer.\<close>

fun isOptExponentPart :: "string \<Rightarrow> bool" where
  "isOptExponentPart [] = True"
| "isOptExponentPart (c # cs) = ((c = CHR ''e'' \<or> c = CHR ''E'') \<and> isSignedInteger cs)"

text \<open>
  \<open>StrUnsignedDecimalLiteral\<close>: \<open>Infinity\<close>, or digits with an optional fraction
  and exponent, or a fraction that starts with the dot.
\<close>

definition isStrUnsignedDecimalLiteral :: "string \<Rightarrow> bool" where
  "isStrUnsignedDecimalLiteral s =
     (s = ''Infinity'' \<or>
      (let ip = takeWhile isDecimalDigit s; r = dropWhile isDecimalDigit s
       in case r of
            [] \<Rightarrow> ip \<noteq> []
          | c # r' \<Rightarrow>
              if c = CHR ''.''
              then (let fp = takeWhile isDecimalDigit r'; e = dropWhile isDecimalDigit r'
                    in \<not> (ip = [] \<and> fp = []) \<and> isOptExponentPart e)
              else ip \<noteq> [] \<and> isOptExponentPart r))"

text \<open>\<open>StrDecimalLiteral\<close>: an unsigned decimal literal with an optional sign.\<close>

fun isStrDecimalLiteral :: "string \<Rightarrow> bool" where
  "isStrDecimalLiteral [] = False"
| "isStrDecimalLiteral (c # cs) =
     (if c = CHR ''+'' \<or> c = CHR ''-'' then isStrUnsignedDecimalLiteral cs
      else isStrUnsignedDecimalLiteral (c # cs))"

text \<open>\<open>NonDecimalIntegerLiteral\<close>: \<open>0b\<close>, \<open>0o\<close> or \<open>0x\<close> (either case) and digits.\<close>

fun isNonDecimalIntegerLiteral :: "string \<Rightarrow> bool" where
  "isNonDecimalIntegerLiteral (z # k # ds) =
     (z = CHR ''0'' \<and>
      (if k = CHR ''b'' \<or> k = CHR ''B'' then isDigits isBinaryDigit ds
       else if k = CHR ''o'' \<or> k = CHR ''O'' then isDigits isOctalDigit ds
       else if k = CHR ''x'' \<or> k = CHR ''X'' then isDigits isHexDigit ds
       else False))"
| "isNonDecimalIntegerLiteral _ = False"

definition unary_plus :: "string \<Rightarrow> jsnumber" where
  "unary_plus s =
     (let lit = trimWhiteSpace s
      in if lit = [] \<or> isStrDecimalLiteral lit \<or> isNonDecimalIntegerLiteral lit
         then NumberOf lit else NaN)"

section \<open>Roster, messages and the bot object\<close>

text \<open>An entry of \<open>this.users\<close> and an entry of \<open>this.channels\<close>, as the transport gives them.\<close>

record slack_user =
  user_id :: string
  user_name :: string

record slack_channel =
  channel_id :: string
  channel_name :: string

text \<open>
  An inbound real time message: the properties \<open>type\<close>, \<open>text\<close>, \<open>user\<close> and
  \<open>channel\<close>, each a string when it is present.
\<close>

record message =
  msg_type :: jsval
  msg_text :: jsval
  msg_user :: jsval
  msg_channel :: jsval

text \<open>
  The fields of \<open>this\<close>: \<open>name\<close> is the configured bot name, \<open>users\<close> and \<open>channels\<close>
  are the roster, \<open>user\<close> and \<open>db\<close> start as \<open>null\<close> (here \<open>None\<close>). An open store
  handle is the path it was opened on.
\<close>

record bot =
  name :: string
  dbPath :: string
  users :: "slack_user list"
  channels :: "slack_channel list"
  user :: "slack_user option"
  db :: "string option"

section \<open>The glossary store\<close>

text \<open>
  The tables \<open>GLOSSARY\<close> and \<open>INFO\<close> of the store file. A table that the file does not
  have is \<open>None\<close>: a statement on it fails with an error. The statement of the reply
  path binds a Number to \<open>TERM = ?\<close>; how the store compares a bound number with a
  stored term is fixed by the schema of the file, which is not part of the source, so
  the store carries it as \<open>TERM_equals_number\<close> (from the literal of the number and the
  term). \<open>NaN\<close> is bound as \<open>NULL\<close>, and \<open>TERM = NULL\<close> holds for no row.
\<close>

record glossary_row =
  TERM_col :: string
  DESCRIPTION_col :: string
  PREREQS_col :: string

record info_row =
  NAME :: string
  VAL :: string

record database =
  GLOSSARY :: "glossary_row list option"
  INFO :: "info_row list option"
  TERM_equals_number :: "string \<Rightarrow> string \<Rightarrow> bool"

text \<open>A row of \<open>SELECT DESCRIPTION,PREREQS\<close>.\<close>

record selected_row =
  DESCRIPTION :: string
  PREREQS :: string

text \<open>
  What a query hands to its callback as \<open>record\<close>: \<open>db.get\<close> gives one row object,
  \<open>db.all\<close> gives the array of all rows. Reading \<open>.DESCRIPTION\<close> from a row object
  gives the column; an array has no such property, so the read gives \<open>undefined\<close>.
\<close>

datatype query_result = Row selected_row | Rows "selected_row list"

fun record_DESCRIPTION :: "query_result \<Rightarrow> jsval" where
  "record_DESCRIPTION (Row r) = Str (DESCRIPTION r)"
| "record_DESCRIPTION (Rows rs) = Undefined"

fun TERM_matches :: "database \<Rightarrow> jsnumber \<Rightarrow> string \<Rightarrow> bool" where
  "TERM_matches d NaN t = False"
| "TERM_matches d (NumberOf lit) t = TERM_equals_number d lit t"

text \<open>\<open>db.all('SELECT DESCRIPTION,PREREQS FROM GLOSSARY WHERE TERM =?', p, callback)\<close>.\<close>

definition db_all :: "database \<Rightarrow> jsnumber \<Rightarrow> string + query_result" where
  "db_all d p =
     (case GLOSSARY d of
        None \<Rightarrow> Inl ''SQLITE_ERROR: no such table: GLOSSARY''
      | Some rows \<Rightarrow>
          Inr (Rows (map (\<lambda>r. \<lparr>DESCRIPTION = DESCRIPTION_col r, PREREQS = PREREQS_col r\<rparr>)
                      (filter (\<lambda>r. TERM_matches d p (TERM_col r)) rows))))"

text \<open>
  \<open>db.get('SELECT VAL FROM INFO WHERE NAME = "lastrun" LIMIT 1', callback)\<close>: the first
  matching row, or \<open>undefined\<close> (here \<open>None\<close>) when there is none.
\<close>

definition db_get :: "database \<Rightarrow> string + string option" where
  "db_get d =
     (case INFO d of
        None \<Rightarrow> Inl ''SQLITE_ERROR: no such table: INFO''
      | Some rows \<Rightarrow>
          Inr (case filter (\<lambda>r. NAME r = ''lastrun'') rows of
                 [] \<Rightarrow> None
               | r # _ \<Rightarrow> Some (VAL r)))"

text \<open>\<open>db.run('INSERT INTO INFO VALUES("lastrun", ?)', v)\<close>.\<close>

definition db_run_insert :: "database \<Rightarrow> string \<Rightarrow> database" where
  "db_run_insert d v =
     d\<lparr>INFO := map_option (\<lambda>rows. rows @ [\<lparr>NAME = ''lastrun'', VAL = v\<rparr>]) (INFO d)\<rparr>"

text \<open>\<open>db.run('UPDATE INFO SET VAL= ? WHERE NAME = "lastrun"', v)\<close>.\<close>

definition db_run_update :: "database \<Rightarrow> string \<Rightarrow> database" where
  "db_run_update d v =
     d\<lparr>INFO := map_option (map (\<lambda>r. if NAME r = ''lastrun'' then r\<lparr>VAL := v\<rparr> else r)) (INFO d)\<rparr>"

section \<open>The world outside the bot\<close>

text \<open>
  Everything the bot reads or changes outside its own fields: the files that exist
  (a path with the store it holds), the clock, the statements issued to the store,
  the calls of \<open>postMessageToChannel\<close> (channel name and text), and the lines written
  by \<open>console.error\<close>.
\<close>

datatype statement =
    SelectGlossary jsnumber
  | SelectLastrun
  | InsertLastrun string
  | UpdateLastrun string

record world =
  files :: "(string \<times> database) list"
  now :: string
  queries :: "statement list"
  posted :: "(jsval \<times> jsval) list"
  console :: "string list"

text \<open>
  How a handler ends: it returns, an exception leaves it uncaught, or the process
  exits with a code. Each carries the world as it is at that moment. A \<open>TypeError\<close>
  carries the name of the property whose read failed.
\<close>

datatype outcome = Returned world | Threw error world | Exited nat world

fun world_of :: "outcome \<Rightarrow> world" where
  "world_of (Returned w) = w"
| "world_of (Threw e w) = w"
| "world_of (Exited n w) = w"

definition existsSync :: "world \<Rightarrow> string \<Rightarrow> bool" where
  "existsSync w p = (map_of (files w) p \<noteq> None)"

text \<open>The store behind a handle; a path with no file behind it has no tables.\<close>

definition database_at :: "world \<Rightarrow> string \<Rightarrow> database" where
  "database_at w p =
     (case map_of (files w) p of
        None \<Rightarrow> \<lparr>GLOSSARY = None, INFO = None, TERM_equals_number = (\<lambda>lit t. False)\<rparr>
      | Some d \<Rightarrow> d)"

definition write_database :: "world \<Rightarrow> string \<Rightarrow> database \<Rightarrow> world" where
  "write_database w p d =
     w\<lparr>files := map (\<lambda>(q, x). if q = p then (q, d) else (q, x)) (files w)\<rparr>"

definition issue :: "world \<Rightarrow> statement \<Rightarrow> world" where
  "issue w q = w\<lparr>queries := queries w @ [q]\<rparr>"

definition console_error :: "world \<Rightarrow> string \<Rightarrow> world" where
  "console_error w line = w\<lparr>console := console w @ [line]\<rparr>"

definition postMessageToChannel :: "world \<Rightarrow> jsval \<Rightarrow> jsval \<Rightarrow> world" where
  "postMessageToChannel w channelName msgText = w\<lparr>posted := posted w @ [(channelName, msgText)]\<rparr>"

section \<open>The bot\<close>

subsection \<open>Message predicates\<close>

text \<open>\<open>message.type === 'message' && Boolean(message.text)\<close>\<close>

definition isChatMessage :: "message \<Rightarrow> bool" where
  "isChatMessage m = (msg_type m = Str ''message'' \<and> Boolean (msg_text m))"

text \<open>
  \<open>typeof message.channel === 'string' && message.channel[0] === 'C'\<close>; the first
  character of the empty string is \<open>undefined\<close>.
\<close>

definition isChannelConversation :: "message \<Rightarrow> bool" where
  "isChannelConversation m =
     (case msg_channel m of
        Undefined \<Rightarrow> False
      | Str s \<Rightarrow> (case s of [] \<Rightarrow> False | c # _ \<Rightarrow> c = CHR ''C''))"

text \<open>
  \<open>message.text.toLowerCase().indexOf('vra') > -1 ||
    message.text.toLowerCase().indexOf(this.name) > -1\<close>;
  the call of \<open>toLowerCase\<close> on a missing text throws.
\<close>

definition isMentioningvRA :: "bot \<Rightarrow> message \<Rightarrow> error + bool" where
  "isMentioningvRA self m =
     (case msg_text m of
        Undefined \<Rightarrow> Inl (TypeError ''toLowerCase'')
      | Str t \<Rightarrow>
          Inr (indexOf (toLowerCase t) ''vra'' > - 1 \<or>
               indexOf (toLowerCase t) (name self) > - 1))"

text \<open>\<open>message.user === this.user.id\<close>; the read of \<open>id\<close> throws when \<open>this.user\<close> is unset.\<close>

definition isFromSaganBot :: "bot \<Rightarrow> message \<Rightarrow> error + bool" where
  "isFromSaganBot self m =
     (case user self of
        None \<Rightarrow> Inl (TypeError ''id'')
      | Some u \<Rightarrow> Inr (msg_user m = Str (user_id u)))"

text \<open>\<open>this.channels.filter(function (item) { return item.id === channelId; })[0]\<close>\<close>

definition getChannelById :: "bot \<Rightarrow> jsval \<Rightarrow> slack_channel option" where
  "getChannelById self channelId =
     (case filter (\<lambda>item. Str (channel_id item) = channelId) (channels self) of
        [] \<Rightarrow> None
      | c # _ \<Rightarrow> Some c)"

subsection \<open>Lookup and reply\<close>

text \<open>
  The callback of the glossary query, on the error or the \<open>record\<close> the store hands it.
  The arguments of \<open>postMessageToChannel\<close> are evaluated from the left: the read of
  \<open>channel.name\<close> throws when no channel was found.
\<close>

definition replyCallback :: "bot \<Rightarrow> message \<Rightarrow> world \<Rightarrow> string + query_result \<Rightarrow> outcome" where
  "replyCallback self originalMessage w res =
     (case res of
        Inl err \<Rightarrow> Returned (console_error w (''DATABASE ERROR: '' @ err))
      | Inr record \<Rightarrow>
          (case getChannelById self (msg_channel originalMessage) of
             None \<Rightarrow> Threw (TypeError ''name'') w
           | Some channel \<Rightarrow>
               Returned (postMessageToChannel w (Str (channel_name channel))
                           (record_DESCRIPTION record))))"

text \<open>
  \<open>_replyWithDescription\<close>: the query term is the text from position 4 on; the
  parameter bound to the statement is \<open>+queryMessage\<close>. The callback runs as soon as
  the statement is issued.
\<close>

definition replyWithDescription :: "bot \<Rightarrow> world \<Rightarrow> message \<Rightarrow> outcome" where
  "replyWithDescription self w originalMessage =
     (case msg_text originalMessage of
        Undefined \<Rightarrow> Threw (TypeError ''slice'') w
      | Str t \<Rightarrow>
          (let queryMessage = slice4 t
           in case db self of
                None \<Rightarrow> Threw (TypeError ''all'') w
              | Some handle \<Rightarrow>
                  replyCallback self originalMessage
                    (issue w (SelectGlossary (unary_plus queryMessage)))
                    (db_all (database_at w handle) (unary_plus queryMessage))))"

text \<open>\<open>_onMessage\<close>: the four predicates joined by \<open>&&\<close>, evaluated from the left.\<close>

definition onMessage :: "bot \<Rightarrow> world \<Rightarrow> message \<Rightarrow> outcome" where
  "onMessage self w m =
     (if isChatMessage m \<and> isChannelConversation m
      then (case isFromSaganBot self m of
              Inl e \<Rightarrow> Threw e w
            | Inr fromBot \<Rightarrow>
                if fromBot then Returned w
                else (case isMentioningvRA self m of
                        Inl e \<Rightarrow> Threw e w
                      | Inr mentioning \<Rightarrow>
                          if mentioning then replyWithDescription self w m
                          else Returned w))
      else Returned w)"

subsection \<open>Startup\<close>

text \<open>\<open>this.user = this.users.filter(function (user) { return user.name === self.name; })[0]\<close>\<close>

definition loadBotUser :: "bot \<Rightarrow> bot" where
  "loadBotUser self =
     self\<lparr>user := (case filter (\<lambda>u. user_name u = name self) (users self) of
                     [] \<Rightarrow> None
                   | u # _ \<Rightarrow> Some u)\<rparr>"

definition missing_store_diagnostic :: "string \<Rightarrow> string" where
  "missing_store_diagnostic path =
     ''Database path '' @ [CHR 0x22] @ path @ [CHR 0x22] @
     '' does not exists or it'' @ [CHR 0x27] @ ''s not readable.''"

text \<open>\<open>_connectDb\<close>: \<open>process.exit(1)\<close> ends the process at once.\<close>

definition connectDb :: "bot \<Rightarrow> world \<Rightarrow> bot \<times> outcome" where
  "connectDb self w =
     (if \<not> existsSync w (dbPath self)
      then (self, Exited 1 (console_error w (missing_store_diagnostic (dbPath self))))
      else (self\<lparr>db := Some (dbPath self)\<rparr>, Returned w))"

definition welcome_text :: string where
  "welcome_text =
     ''Hello there!'' @ [CHR 0x0A] @
     '' vRA can be a bummer for a first-time user. Just type a vRA-specific term you wish to invoke my glossary!''"

text \<open>\<open>_welcomeMessage\<close>: the read of \<open>this.channels[0].name\<close> throws on an empty roster.\<close>

definition welcomeMessage :: "bot \<Rightarrow> world \<Rightarrow> outcome" where
  "welcomeMessage self w =
     (case channels self of
        [] \<Rightarrow> Threw (TypeError ''name'') w
      | c # _ \<Rightarrow> Returned (postMessageToChannel w (Str (channel_name c)) (Str welcome_text)))"

text \<open>
  \<open>_firstRunCheck\<close>, with its callback run as soon as the statement is issued. The
  current time is read from the clock of the world. The two \<open>db.run\<close> calls have no
  callback; they act on a table that the \<open>SELECT\<close> has just read.
\<close>

definition firstRunCheck :: "bot \<Rightarrow> world \<Rightarrow> outcome" where
  "firstRunCheck self w =
     (case db self of
        None \<Rightarrow> Threw (TypeError ''get'') w
      | Some handle \<Rightarrow>
          (let w1 = issue w SelectLastrun
           in case db_get (database_at w handle) of
                Inl err \<Rightarrow> Returned (console_error w1 (''DATABASE ERROR: '' @ err))
              | Inr record \<Rightarrow>
                  (let currentTime = now w1
                   in case record of
                        None \<Rightarrow>
                          (case welcomeMessage self w1 of
                             Returned w2 \<Rightarrow>
                               Returned (write_database (issue w2 (InsertLastrun currentTime)) handle
                                           (db_run_insert (database_at w2 handle) currentTime))
                           | other \<Rightarrow> other)
                      | Some v \<Rightarrow>
                          Returned (write_database (issue w1 (UpdateLastrun currentTime)) handle
                                      (db_run_update (database_at w1 handle) currentTime)))))"

text \<open>\<open>_onStart\<close>: the three steps in order; nothing runs after the process has exited.\<close>

definition onStart :: "bot \<Rightarrow> world \<Rightarrow> bot \<times> outcome" where
  "onStart self w =
     (case connectDb (loadBotUser self) w of
        (self', Returned w') \<Rightarrow> (self', firstRunCheck self' w')
      | (self', other) \<Rightarrow> (self', other))"

section \<open>Concrete rosters, stores and messages\<close>

text \<open>
  A store with the glossary entry \<open>cloud\<close> and a \<open>lastrun\<close> record, a started bot
  named \<open>saganbot\<close> on a roster of two users and one channel, and a message
  \<open>vra cloud\<close> sent to that channel by the other user.
\<close>

definition scenario_store :: database where
  "scenario_store =
     \<lparr>GLOSSARY = Some [\<lparr>TERM_col = ''cloud'', DESCRIPTION_col = ''A pool of compute.'',
                        PREREQS_col = ''none''\<rparr>],
      INFO = Some [\<lparr>NAME = ''lastrun'', VAL = ''2017-01-01T00:00:00.000Z''\<rparr>],
      TERM_equals_number = (\<lambda>lit t. lit = t)\<rparr>"

definition scenario_world :: world where
  "scenario_world =
     \<lparr>files = [(''data/vra.db'', scenario_store)], now = ''2017-01-02T00:00:00.000Z'',
      queries = [], posted = [], console = []\<rparr>"

definition scenario_bot :: bot where
  "scenario_bot =
     \<lparr>name = ''saganbot'', dbPath = ''data/vra.db'',
      users = [\<lparr>user_id = ''U1'', user_name = ''saganbot''\<rparr>,
               \<lparr>user_id = ''U2'', user_name = ''alice''\<rparr>],
      channels = [\<lparr>channel_id = ''C1'', channel_name = ''general''\<rparr>],
      user = Some \<lparr>user_id = ''U1'', user_name = ''saganbot''\<rparr>,
      db = Some ''data/vra.db''\<rparr>"

definition scenario_message :: message where
  "scenario_message =
     \<lparr>msg_type = Str ''message'', msg_text = Str ''vra cloud'', msg_user = Str ''U2'',
      msg_channel = Str ''C1''\<rparr>"

text \<open>The same store before the first activation, and the bot before \<open>_onStart\<close>.\<close>

definition first_run_store :: database where
  "first_run_store = scenario_store\<lparr>INFO := Some []\<rparr>"

definition first_run_world :: world where
  "first_run_world = scenario_world\<lparr>files := [(''data/vra.db'', first_run_store)]\<rparr>"

definition unstarted_bot :: bot where
  "unstarted_bot = scenario_bot\<lparr>user := None, db := None\<rparr>"

text \<open>A roster on which nobody carries the configured name.\<close>

definition unlisted_bot :: bot where
  "unlisted_bot = unstarted_bot\<lparr>users := [\<lparr>user_id = ''U2'', user_name = ''alice''\<rparr>]\<rparr>"

text \<open>
  A bot configured as \<open>SaganBot\<close>, before \<open>_onStart\<close>, on a roster that lists it under
  that name, and a message that addresses it by that name.
\<close>

definition capital_bot :: bot where
  "capital_bot =
     unstarted_bot\<lparr>name := ''SaganBot'',
                    users := [\<lparr>user_id = ''U1'', user_name = ''SaganBot''\<rparr>,
                              \<lparr>user_id = ''U2'', user_name = ''alice''\<rparr>]\<rparr>"

definition greeting :: message where
  "greeting = scenario_message\<lparr>msg_text := Str ''hi SaganBot''\<rparr>"

text \<open>
  The scenario message as sent by the bot itself, as a direct message, and on a
  channel that the roster does not list.
\<close>

definition own_message :: message where
  "own_message = scenario_message\<lparr>msg_user := Str ''U1''\<rparr>"

definition direct_message :: message where
  "direct_message = scenario_message\<lparr>msg_channel := Str ''D1''\<rparr>"

definition stray_message :: message where
  "stray_message = scenario_message\<lparr>msg_channel := Str ''C9''\<rparr>"

text \<open>An event that is not a chat message: another type, and no text.\<close>

definition typing_event :: message where
  "typing_event = scenario_message\<lparr>msg_type := Str ''user_typing'', msg_text := Undefined\<rparr>"

text \<open>A message that names neither the keyword nor the bot.\<close>

definition plain_message :: message where
  "plain_message = scenario_message\<lparr>msg_text := Str ''hello there''\<rparr>"

text \<open>A store file without the \<open>GLOSSARY\<close> table, and a disk without the store file.\<close>

definition broken_world :: world where
  "broken_world =
     scenario_world\<lparr>files := [(''data/vra.db'', scenario_store\<lparr>GLOSSARY := None\<rparr>)]\<rparr>"

definition empty_disk_world :: world where
  "empty_disk_world = scenario_world\<lparr>files := []\<rparr>"

section \<open>Auxiliary facts\<close>

lemmas predicate_defs =
  isChatMessage_def isChannelConversation_def isFromSaganBot_def isMentioningvRA_def

lemmas world_defs = issue_def console_error_def postMessageToChannel_def

lemmas scenario_defs =
  scenario_bot_def scenario_world_def scenario_message_def scenario_store_def

text \<open>\<open>indexOf\<close> finds the pattern exactly when the pattern is a contiguous part of the string.\<close>

lemma indexOf_from_sublist: "(indexOf_from i s pat > - 1) = sublist pat s"
  by (induction s arbitrary: i) (simp_all add: sublist_Cons_right)

lemma indexOf_sublist: "(indexOf s pat > - 1) = sublist pat s"
  by (simp add: indexOf_def indexOf_from_sublist)

lemma map_of_rewrite:
  "map_of (map (\<lambda>(q, x). if q = p then (q, d) else (q, x)) xs) p =
     (case map_of xs p of None \<Rightarrow> None | Some y \<Rightarrow> Some d)"
  by (induction xs) auto

lemma unary_plus_cloud: "unary_plus ''cloud'' = NaN"
  by (simp add: unary_plus_def trimWhiteSpace_def isStrWhiteSpaceChar_def
      isStrUnsignedDecimalLiteral_def isDecimalDigit_def)

lemma toLowerCase_vra_cloud: "toLowerCase ''vra cloud'' = ''vra cloud''"
  by (simp add: toLowerCase_def toLowerChar_def)

lemma toLowerCase_greeting: "toLowerCase ''hi SaganBot'' = ''hi saganbot''"
  by code_simp

lemma toLowerCase_SaganBot: "toLowerCase ''SaganBot'' = ''saganbot''"
  by code_simp

text \<open>Startup resolves the identity of the bot configured as \<open>SaganBot\<close> and opens its store.\<close>

lemma capital_bot_started:
  "fst (onStart capital_bot scenario_world) =
     capital_bot\<lparr>user := Some \<lparr>user_id = ''U1'', user_name = ''SaganBot''\<rparr>,
                  db := Some ''data/vra.db''\<rparr>"
  by (simp add: onStart_def connectDb_def loadBotUser_def existsSync_def capital_bot_def
      unstarted_bot_def scenario_defs split: outcome.splits prod.splits)

text \<open>
  The predicate in terms of containment: the lowercase text is searched for \<open>vra\<close> and
  for \<open>this.name\<close>.
\<close>

lemma isMentioningvRA_sublist:
  "msg_text m = Str t \<Longrightarrow>
   isMentioningvRA self m =
     Inr (sublist ''vra'' (toLowerCase t) \<or> sublist (name self) (toLowerCase t))"
  by (simp add: isMentioningvRA_def indexOf_sublist)

section \<open>Lookup and reply\<close>

text \<open>
  C1. The store holds the term \<open>cloud\<close> with the description \<open>A pool of compute.\<close>, and
  a user who is not the bot writes \<open>vra cloud\<close> on the public channel \<open>general\<close>. The
  bot should post the description there. It does not: the statement is issued with
  \<open>NaN\<close> as its parameter, and the text handed to \<open>postMessageToChannel\<close> is
  \<open>undefined\<close>, the \<open>DESCRIPTION\<close> property of the array of rows.
\<close>

theorem cloud_scenario_posts_undefined:
  "onMessage scenario_bot scenario_world scenario_message =
     Returned (scenario_world\<lparr>queries := [SelectGlossary NaN],
                              posted := [(Str ''general'', Undefined)]\<rparr>) \<and>
   posted (world_of (onMessage scenario_bot scenario_world scenario_message)) \<noteq>
     [(Str ''general'', Str ''A pool of compute.'')]"
  by (simp add: onMessage_def scenario_defs predicate_defs toLowerCase_vra_cloud indexOf_def
      replyWithDescription_def slice4_def unary_plus_cloud replyCallback_def getChannelById_def
      db_all_def database_at_def world_defs)

text \<open>
  C2. The query term is the message text without its first four characters, here
  \<open>cloud\<close>, and the lookup should select the entry whose term is that text. The
  parameter that reaches the store is \<open>+queryMessage\<close>, here \<open>NaN\<close>, and the lookup
  selects no row although the store holds the term \<open>cloud\<close>.
\<close>

theorem cloud_scenario_binds_NaN:
  "msg_text scenario_message = Str ''vra cloud'' \<and>
   slice4 ''vra cloud'' = ''cloud'' \<and>
   GLOSSARY scenario_store =
     Some [\<lparr>TERM_col = ''cloud'', DESCRIPTION_col = ''A pool of compute.'',
            PREREQS_col = ''none''\<rparr>] \<and>
   queries (world_of (onMessage scenario_bot scenario_world scenario_message)) =
     [SelectGlossary NaN] \<and>
   db_all scenario_store (unary_plus (slice4 ''vra cloud'')) = Inr (Rows [])"
  by (simp add: onMessage_def scenario_defs predicate_defs toLowerCase_vra_cloud indexOf_def
      replyWithDescription_def slice4_def unary_plus_cloud replyCallback_def getChannelById_def
      db_all_def database_at_def world_defs)

text \<open>
  C9. When a message passes the four predicates and the store answers the lookup
  with an error, the handler writes the error to the console and returns: nothing is
  posted, and the store is left as it was. The handler neither throws nor ends
  the process, and it does not change the bot, so the next event is handled as usual.
  The callback does the same on whatever error it is handed.
\<close>

theorem onMessage_query_error_logged:
  assumes "isChatMessage m" and "isChannelConversation m"
    and "isFromSaganBot self m = Inr False" and "isMentioningvRA self m = Inr True"
    and "msg_text m = Str t" and "db self = Some h"
    and "db_all (database_at w h) (unary_plus (slice4 t)) = Inl err"
  shows "onMessage self w m =
           Returned (console_error (issue w (SelectGlossary (unary_plus (slice4 t))))
                       (''DATABASE ERROR: '' @ err)) \<and>
         posted (world_of (onMessage self w m)) = posted w \<and>
         files (world_of (onMessage self w m)) = files w \<and>
         replyCallback self m w' (Inl e) = Returned (console_error w' (''DATABASE ERROR: '' @ e))"
  using assms
  by (simp add: onMessage_def replyWithDescription_def replyCallback_def world_defs)

text \<open>
  The scenario message against a store file that has no \<open>GLOSSARY\<close> table: the error
  is logged and nothing is posted.
\<close>

theorem onMessage_query_error_logged_witness:
  "isChatMessage scenario_message \<and> isChannelConversation scenario_message \<and>
   isFromSaganBot scenario_bot scenario_message = Inr False \<and>
   isMentioningvRA scenario_bot scenario_message = Inr True \<and>
   db_all (database_at broken_world ''data/vra.db'') (unary_plus (slice4 ''vra cloud'')) =
     Inl ''SQLITE_ERROR: no such table: GLOSSARY'' \<and>
   onMessage scenario_bot broken_world scenario_message =
     Returned (broken_world
       \<lparr>queries := [SelectGlossary NaN],
        console := [''DATABASE ERROR: SQLITE_ERROR: no such table: GLOSSARY'']\<rparr>) \<and>
   posted (world_of (onMessage scenario_bot broken_world scenario_message)) = []"
proof -
  have h: "isChatMessage scenario_message" "isChannelConversation scenario_message"
    "isFromSaganBot scenario_bot scenario_message = Inr False"
    "isMentioningvRA scenario_bot scenario_message = Inr True"
    "msg_text scenario_message = Str ''vra cloud''" "db scenario_bot = Some ''data/vra.db''"
    "db_all (database_at broken_world ''data/vra.db'') (unary_plus (slice4 ''vra cloud'')) =
       Inl ''SQLITE_ERROR: no such table: GLOSSARY''"
    by (simp_all add: predicate_defs scenario_defs toLowerCase_vra_cloud indexOf_def
        db_all_def database_at_def broken_world_def)
  show ?thesis
    using h onMessage_query_error_logged [OF h]
    by (simp add: world_defs slice4_def unary_plus_cloud broken_world_def scenario_world_def)
qed

text \<open>
  C10. When the lookup succeeds and the channel id of the message is not on the channel
  roster, \<open>_getChannelById\<close> finds no channel, and the read of the channel's name in the
  reply step throws: the step posts nothing.
\<close>

theorem reply_unknown_channel_throws:
  assumes "\<forall>c \<in> set (channels self). Str (channel_id c) \<noteq> msg_channel m"
    and "msg_text m = Str t" and "db self = Some h"
    and "db_all (database_at w h) (unary_plus (slice4 t)) = Inr record"
  shows "getChannelById self (msg_channel m) = None \<and>
         replyWithDescription self w m =
           Threw (TypeError ''name'') (issue w (SelectGlossary (unary_plus (slice4 t)))) \<and>
         posted (world_of (replyWithDescription self w m)) = posted w"
proof -
  from assms(1)
  have "filter (\<lambda>item. Str (channel_id item) = msg_channel m) (channels self) = []"
    by (simp add: filter_empty_conv)
  then have none: "getChannelById self (msg_channel m) = None"
    by (simp add: getChannelById_def)
  with assms(2-4) show ?thesis
    by (simp add: replyWithDescription_def replyCallback_def issue_def)
qed

text \<open>The scenario message on the channel \<open>C9\<close>, which the roster does not list.\<close>

theorem reply_unknown_channel_throws_witness:
  "map channel_id (channels scenario_bot) = [''C1''] \<and>
   msg_channel stray_message = Str ''C9'' \<and>
   db_all (database_at scenario_world ''data/vra.db'') (unary_plus (slice4 ''vra cloud'')) =
     Inr (Rows []) \<and>
   getChannelById scenario_bot (msg_channel stray_message) = None \<and>
   replyWithDescription scenario_bot scenario_world stray_message =
     Threw (TypeError ''name'') (scenario_world\<lparr>queries := [SelectGlossary NaN]\<rparr>)"
proof -
  have h: "\<forall>c \<in> set (channels scenario_bot). Str (channel_id c) \<noteq> msg_channel stray_message"
    "msg_text stray_message = Str ''vra cloud''" "db scenario_bot = Some ''data/vra.db''"
    "db_all (database_at scenario_world ''data/vra.db'') (unary_plus (slice4 ''vra cloud'')) =
       Inr (Rows [])"
    by (simp_all add: scenario_defs stray_message_def db_all_def database_at_def slice4_def
        unary_plus_cloud)
  have r: "map channel_id (channels scenario_bot) = [''C1'']"
    "msg_channel stray_message = Str ''C9''"
    by (simp_all add: scenario_defs stray_message_def)
  show ?thesis
    using h r reply_unknown_channel_throws [OF h]
    by (simp add: issue_def slice4_def unary_plus_cloud scenario_world_def)
qed

section \<open>Message filtering\<close>

text \<open>
  C4. A message whose author id is the id of the resolved bot identity gets no reply:
  the handler returns and leaves the world as it was.
\<close>

theorem onMessage_ignores_own_messages:
  "user self = Some u \<Longrightarrow> msg_user m = Str (user_id u) \<Longrightarrow> onMessage self w m = Returned w"
  by (simp add: onMessage_def isFromSaganBot_def)

text \<open>The scenario message, sent under the bot's own id \<open>U1\<close>.\<close>

theorem onMessage_ignores_own_messages_witness:
  "user scenario_bot = Some \<lparr>user_id = ''U1'', user_name = ''saganbot''\<rparr> \<and>
   msg_user own_message = Str ''U1'' \<and>
   onMessage scenario_bot scenario_world own_message = Returned scenario_world"
  using onMessage_ignores_own_messages
    [of scenario_bot "\<lparr>user_id = ''U1'', user_name = ''saganbot''\<rparr>" own_message scenario_world]
  by (simp add: scenario_bot_def own_message_def scenario_message_def)

text \<open>
  C5. On a roster where nobody carries the configured name, the identity stays unset.
  The self-authorship check should then be false for every message. It is not: it
  reads \<open>id\<close> from the unset identity and throws, and so does the handler for a chat
  message on a public channel.
\<close>

theorem unset_identity_self_check_throws:
  "user (loadBotUser unlisted_bot) = None \<and>
   isFromSaganBot (loadBotUser unlisted_bot) scenario_message = Inl (TypeError ''id'') \<and>
   onMessage (loadBotUser unlisted_bot) scenario_world scenario_message =
     Threw (TypeError ''id'') scenario_world"
  by (simp add: loadBotUser_def unlisted_bot_def unstarted_bot_def scenario_bot_def
      isFromSaganBot_def onMessage_def scenario_message_def isChatMessage_def
      isChannelConversation_def)

text \<open>
  C6. The predicate should hold exactly when the lowercase text contains \<open>vra\<close> or the
  lowercase name of the bot. The bot is configured as \<open>SaganBot\<close>, the roster lists it
  under that name and startup resolves its identity. Another user writes \<open>hi SaganBot\<close>
  on a public channel: the lowercase text contains the lowercase name, yet the predicate
  is false and the handler returns without a lookup or a reply. The text is made
  lowercase before the search, the name is not.
\<close>

theorem capital_name_never_mentioned:
  "user (fst (onStart capital_bot scenario_world)) =
     Some \<lparr>user_id = ''U1'', user_name = ''SaganBot''\<rparr> \<and>
   name (fst (onStart capital_bot scenario_world)) = ''SaganBot'' \<and>
   msg_text greeting = Str ''hi SaganBot'' \<and>
   sublist (toLowerCase ''SaganBot'') (toLowerCase ''hi SaganBot'') \<and>
   isMentioningvRA (fst (onStart capital_bot scenario_world)) greeting = Inr False \<and>
   onMessage (fst (onStart capital_bot scenario_world)) scenario_world greeting =
     Returned scenario_world"
proof -
  have "indexOf ''hi saganbot'' ''saganbot'' > - 1"
    by (simp add: indexOf_def)
  then have "sublist ''saganbot'' ''hi saganbot''"
    by (simp only: indexOf_sublist)
  then show ?thesis
    unfolding capital_bot_started
    by (simp add: capital_bot_def unstarted_bot_def scenario_bot_def greeting_def
        scenario_message_def predicate_defs onMessage_def toLowerCase_greeting
        toLowerCase_SaganBot indexOf_def)
qed

text \<open>
  C7. A message that fails one of the four predicates causes no store query, no reply
  and no other effect: the world after the handler is the world before it. The
  handler returns, except that it throws when the message passes the first two
  predicates and the identity of the bot is unset.
\<close>

theorem onMessage_short_circuits:
  assumes "\<not> isChatMessage m \<or> \<not> isChannelConversation m \<or>
           isFromSaganBot self m = Inr True \<or> isMentioningvRA self m = Inr False"
  shows "world_of (onMessage self w m) = w \<and>
         (\<not> isChatMessage m \<or> \<not> isChannelConversation m \<or> user self \<noteq> None
            \<longrightarrow> onMessage self w m = Returned w)"
  using assms
  by (auto simp: onMessage_def isFromSaganBot_def split: sum.splits option.splits)

text \<open>
  One message for each predicate: an event of another type without text, a direct
  message, a message of the bot itself, and a message without the keyword.
\<close>

theorem onMessage_short_circuits_witness:
  "\<not> isChatMessage typing_event \<and>
   onMessage scenario_bot scenario_world typing_event = Returned scenario_world \<and>
   \<not> isChannelConversation direct_message \<and>
   onMessage scenario_bot scenario_world direct_message = Returned scenario_world \<and>
   isFromSaganBot scenario_bot own_message = Inr True \<and>
   onMessage scenario_bot scenario_world own_message = Returned scenario_world \<and>
   isMentioningvRA scenario_bot plain_message = Inr False \<and>
   onMessage scenario_bot scenario_world plain_message = Returned scenario_world"
proof -
  have l: "toLowerCase ''hello there'' = ''hello there''"
    by (simp add: toLowerCase_def toLowerChar_def)
  have h: "\<not> isChatMessage typing_event" "\<not> isChannelConversation direct_message"
    "isFromSaganBot scenario_bot own_message = Inr True"
    "isMentioningvRA scenario_bot plain_message = Inr False"
    "user scenario_bot \<noteq> None"
    by (simp_all add: predicate_defs typing_event_def direct_message_def own_message_def
        plain_message_def scenario_message_def scenario_bot_def l indexOf_def)
  show ?thesis
    using h
      onMessage_short_circuits [of typing_event scenario_bot scenario_world]
      onMessage_short_circuits [of direct_message scenario_bot scenario_world]
      onMessage_short_circuits [of own_message scenario_bot scenario_world]
      onMessage_short_circuits [of plain_message scenario_bot scenario_world]
    by simp
qed

section \<open>Startup\<close>

text \<open>
  C8. When no file exists at the configured store path, startup writes the diagnostic
  to the console and ends the process with exit code 1; no message is posted and no
  statement is issued to a store.
\<close>

theorem onStart_missing_store_exits:
  assumes "\<not> existsSync w (dbPath self)"
  shows "snd (onStart self w) =
           Exited 1 (console_error w (missing_store_diagnostic (dbPath self))) \<and>
         posted (world_of (snd (onStart self w))) = posted w \<and>
         queries (world_of (snd (onStart self w))) = queries w \<and>
         console (world_of (snd (onStart self w))) =
           console w @ [missing_store_diagnostic (dbPath self)]"
  using assms
  by (simp add: onStart_def connectDb_def loadBotUser_def console_error_def existsSync_def)

text \<open>Startup on a disk that holds no file at all.\<close>

theorem onStart_missing_store_exits_witness:
  "\<not> existsSync empty_disk_world (dbPath unstarted_bot) \<and>
   snd (onStart unstarted_bot empty_disk_world) =
     Exited 1 (console_error empty_disk_world (missing_store_diagnostic ''data/vra.db'')) \<and>
   posted (world_of (snd (onStart unstarted_bot empty_disk_world))) = []"
proof -
  have h: "\<not> existsSync empty_disk_world (dbPath unstarted_bot)"
    by (simp add: existsSync_def empty_disk_world_def)
  have p: "dbPath unstarted_bot = ''data/vra.db''" "posted empty_disk_world = []"
    by (simp_all add: unstarted_bot_def scenario_bot_def empty_disk_world_def scenario_world_def)
  show ?thesis
    using h onStart_missing_store_exits [OF h] by (simp add: p console_error_def)
qed

text \<open>
  C3. Startup on a store file whose \<open>INFO\<close> table can be read. When the table has no
  \<open>lastrun\<close> record and the roster has a first channel, exactly one message, the
  welcome, is posted to that channel, and exactly one \<open>lastrun\<close> record, holding the
  current time, is added to the table. When the table has a \<open>lastrun\<close> record, its
  value becomes the current time and nothing is posted.
\<close>

theorem onStart_welcomes_once:
  assumes "map_of (files w) (dbPath self) = Some d" and "INFO d = Some rows"
  shows "((\<forall>r \<in> set rows. NAME r \<noteq> ''lastrun'') \<and> channels self = c # cs \<longrightarrow>
            snd (onStart self w) = Returned (world_of (snd (onStart self w))) \<and>
            posted (world_of (snd (onStart self w))) =
              posted w @ [(Str (channel_name c), Str welcome_text)] \<and>
            queries (world_of (snd (onStart self w))) =
              queries w @ [SelectLastrun, InsertLastrun (now w)] \<and>
            INFO (database_at (world_of (snd (onStart self w))) (dbPath self)) =
              Some (rows @ [\<lparr>NAME = ''lastrun'', VAL = now w\<rparr>])) \<and>
         ((\<exists>r \<in> set rows. NAME r = ''lastrun'') \<longrightarrow>
            snd (onStart self w) = Returned (world_of (snd (onStart self w))) \<and>
            posted (world_of (snd (onStart self w))) = posted w \<and>
            queries (world_of (snd (onStart self w))) =
              queries w @ [SelectLastrun, UpdateLastrun (now w)] \<and>
            INFO (database_at (world_of (snd (onStart self w))) (dbPath self)) =
              Some (map (\<lambda>r. if NAME r = ''lastrun'' then r\<lparr>VAL := now w\<rparr> else r) rows))"
proof -
  let ?self = "(loadBotUser self)\<lparr>db := Some (dbPath self)\<rparr>"
  have start: "snd (onStart self w) = firstRunCheck ?self w"
    using assms(1) by (simp add: onStart_def connectDb_def existsSync_def loadBotUser_def)
  have first: "snd (onStart self w) = Returned (world_of (snd (onStart self w))) \<and>
            posted (world_of (snd (onStart self w))) =
              posted w @ [(Str (channel_name c), Str welcome_text)] \<and>
            queries (world_of (snd (onStart self w))) =
              queries w @ [SelectLastrun, InsertLastrun (now w)] \<and>
            INFO (database_at (world_of (snd (onStart self w))) (dbPath self)) =
              Some (rows @ [\<lparr>NAME = ''lastrun'', VAL = now w\<rparr>])"
    if none: "\<forall>r \<in> set rows. NAME r \<noteq> ''lastrun''" and chans: "channels self = c # cs"
  proof -
    from none have "filter (\<lambda>r. NAME r = ''lastrun'') rows = []"
      by (simp add: filter_empty_conv)
    then have get: "db_get d = Inr None"
      using assms(2) by (simp add: db_get_def)
    have run: "firstRunCheck ?self w =
        Returned (write_database
          (issue (postMessageToChannel (issue w SelectLastrun)
                    (Str (channel_name c)) (Str welcome_text))
             (InsertLastrun (now w)))
          (dbPath self) (db_run_insert d (now w)))"
      using get chans assms(1)
      by (simp add: firstRunCheck_def welcomeMessage_def loadBotUser_def database_at_def
          world_defs Let_def)
    show ?thesis
      using assms
      by (simp add: start run write_database_def world_defs database_at_def map_of_rewrite
          db_run_insert_def)
  qed
  have later: "snd (onStart self w) = Returned (world_of (snd (onStart self w))) \<and>
            posted (world_of (snd (onStart self w))) = posted w \<and>
            queries (world_of (snd (onStart self w))) =
              queries w @ [SelectLastrun, UpdateLastrun (now w)] \<and>
            INFO (database_at (world_of (snd (onStart self w))) (dbPath self)) =
              Some (map (\<lambda>r. if NAME r = ''lastrun'' then r\<lparr>VAL := now w\<rparr> else r) rows)"
    if some: "\<exists>r \<in> set rows. NAME r = ''lastrun''"
  proof -
    from some have "filter (\<lambda>r. NAME r = ''lastrun'') rows \<noteq> []"
      by (simp add: filter_empty_conv)
    then obtain r rs where "filter (\<lambda>r. NAME r = ''lastrun'') rows = r # rs"
      by (cases "filter (\<lambda>r. NAME r = ''lastrun'') rows") auto
    then have get: "db_get d = Inr (Some (VAL r))"
      using assms(2) by (simp add: db_get_def)
    have run: "firstRunCheck ?self w =
        Returned (write_database (issue (issue w SelectLastrun) (UpdateLastrun (now w)))
          (dbPath self) (db_run_update d (now w)))"
      using get assms(1) by (simp add: firstRunCheck_def world_defs Let_def database_at_def)
    show ?thesis
      using assms
      by (simp add: start run write_database_def world_defs database_at_def map_of_rewrite
          db_run_update_def)
  qed
  from first later show ?thesis by blast
qed

text \<open>
  The first activation on a store without a \<open>lastrun\<close> record, and an activation on
  the store that has one from the day before.
\<close>

theorem onStart_welcomes_once_witness:
  "map_of (files first_run_world) (dbPath unstarted_bot) = Some first_run_store \<and>
   INFO first_run_store = Some [] \<and>
   snd (onStart unstarted_bot first_run_world) =
     Returned (world_of (snd (onStart unstarted_bot first_run_world))) \<and>
   posted (world_of (snd (onStart unstarted_bot first_run_world))) =
     [(Str ''general'', Str welcome_text)] \<and>
   INFO (database_at (world_of (snd (onStart unstarted_bot first_run_world))) ''data/vra.db'') =
     Some [\<lparr>NAME = ''lastrun'', VAL = ''2017-01-02T00:00:00.000Z''\<rparr>] \<and>
   map_of (files scenario_world) (dbPath unstarted_bot) = Some scenario_store \<and>
   INFO scenario_store = Some [\<lparr>NAME = ''lastrun'', VAL = ''2017-01-01T00:00:00.000Z''\<rparr>] \<and>
   posted (world_of (snd (onStart unstarted_bot scenario_world))) = [] \<and>
   INFO (database_at (world_of (snd (onStart unstarted_bot scenario_world))) ''data/vra.db'') =
     Some [\<lparr>NAME = ''lastrun'', VAL = ''2017-01-02T00:00:00.000Z''\<rparr>]"
proof -
  have f: "map_of (files first_run_world) (dbPath unstarted_bot) = Some first_run_store"
    "INFO first_run_store = Some []"
    by (simp_all add: first_run_world_def first_run_store_def unstarted_bot_def scenario_defs)
  have s: "map_of (files scenario_world) (dbPath unstarted_bot) = Some scenario_store"
    "INFO scenario_store = Some [\<lparr>NAME = ''lastrun'', VAL = ''2017-01-01T00:00:00.000Z''\<rparr>]"
    by (simp_all add: unstarted_bot_def scenario_defs)
  have c: "channels unstarted_bot = [\<lparr>channel_id = ''C1'', channel_name = ''general''\<rparr>]"
    "dbPath unstarted_bot = ''data/vra.db''"
    "now first_run_world = ''2017-01-02T00:00:00.000Z''"
    "now scenario_world = ''2017-01-02T00:00:00.000Z''"
    "posted first_run_world = []" "posted scenario_world = []"
    by (simp_all add: first_run_world_def unstarted_bot_def scenario_defs)
  show ?thesis
    using f s
      onStart_welcomes_once [OF f,
        where c = "\<lparr>channel_id = ''C1'', channel_name = ''general''\<rparr>" and cs = "[]"]
      onStart_welcomes_once [OF s,
        where c = "\<lparr>channel_id = ''C1'', channel_name = ''general''\<rparr>" and cs = "[]"]
    by (simp add: c)
qed

end
